theory Spec2Isabelle
  imports Complex_Main
begin

section \<open>The photon codec of dj-photon-codecs (codecs.py)\<close>

text \<open>
  A shallow embedding of \<^verbatim>\<open>PhotonCodec\<close> (\<^verbatim>\<open>validate\<close>, \<^verbatim>\<open>encode\<close>,
  \<^verbatim>\<open>decode\<close>). Python exceptions are values of \<open>exn\<close> and every function that can
  raise returns \<open>exn + 'a\<close>. The Zarr store is an explicit map from resolved locations
  to artifacts, carried in a \<open>world\<close> together with the list of calls made to the
  collaborators the codec does not implement (the host's \<^verbatim>\<open>SchemaCodec\<close> helpers, the
  storage backend, the transform library and the Zarr engine). What those collaborators
  return is a parameter, the record \<open>env\<close>.
\<close>

subsection \<open>Python values\<close>

text \<open>
  The JSON-like values held in Zarr attributes, in the stored metadata record and in
  primary keys.
\<close>

datatype jvalue =
    JNone
  | JBool bool
  | JInt int
  | JFloat real
  | JStr string
  | JList "jvalue list"

type_synonym pydict = "string \<rightharpoonup> jvalue"

text \<open>\<^verbatim>\<open>type(v).__name__\<close>\<close>

fun type_name :: "jvalue \<Rightarrow> string" where
  "type_name JNone = ''NoneType''"
| "type_name (JBool _) = ''bool''"
| "type_name (JInt _) = ''int''"
| "type_name (JFloat _) = ''float''"
| "type_name (JStr _) = ''str''"
| "type_name (JList _) = ''list''"

text \<open>\<^verbatim>\<open>d.get(k, default)\<close>\<close>

definition dict_get :: "pydict \<Rightarrow> string \<Rightarrow> jvalue \<Rightarrow> jvalue" where
  "dict_get d k dflt = (case d k of None \<Rightarrow> dflt | Some v \<Rightarrow> v)"

text \<open>A parameter of type \<^verbatim>\<open>str | None\<close> seen as a value.\<close>

definition py_opt_str :: "string option \<Rightarrow> jvalue" where
  "py_opt_str s = (case s of None \<Rightarrow> JNone | Some t \<Rightarrow> JStr t)"

text \<open>\<^verbatim>\<open>s.startswith(p)\<close>\<close>

definition startswith :: "string \<Rightarrow> string \<Rightarrow> bool" where
  "startswith s p = (take (length p) s = p)"

text \<open>\<^verbatim>\<open>str(n)\<close> for a non-negative integer, as the f-strings print it.\<close>

definition digit_char :: "nat \<Rightarrow> char" where
  "digit_char d = ''0123456789'' ! d"

function string_of_nat :: "nat \<Rightarrow> string" where
  "string_of_nat n =
     (if n < 10 then [digit_char n]
      else string_of_nat (n div 10) @ [digit_char (n mod 10)])"
  by pat_completeness auto
termination
  by (relation "measure id") auto

declare string_of_nat.simps [simp del]

subsection \<open>Exceptions\<close>

text \<open>
  An exception has a class name, the text \<^verbatim>\<open>str(e)\<close> and the cause set by
  \<^verbatim>\<open>raise ... from e\<close>. Only instances of \<^verbatim>\<open>Exception\<close> are modelled: they are what
  \<^verbatim>\<open>except Exception\<close> catches.
\<close>

datatype exn = Exn (kind: string) (msg: string) (cause: "exn option")

definition DataJointError :: "string \<Rightarrow> exn" where
  "DataJointError m = Exn ''DataJointError'' m None"

text \<open>\<^verbatim>\<open>raise DataJointError(f"Failed to encode photon movie: {e}") from e\<close>\<close>

definition encode_failure :: "exn \<Rightarrow> exn" where
  "encode_failure e = Exn ''DataJointError'' (''Failed to encode photon movie: '' @ msg e) (Some e)"

text \<open>\<^verbatim>\<open>raise DataJointError(f"Failed to decode photon movie: {e}") from e\<close>\<close>

definition decode_failure :: "exn \<Rightarrow> exn" where
  "decode_failure e = Exn ''DataJointError'' (''Failed to decode photon movie: '' @ msg e) (Some e)"

subsection \<open>Arrays\<close>

text \<open>
  An element of an array: a finite number, one of the IEEE specials of a floating-point
  array, or an item that is not a number (a text, a byte string, a date, a structured
  value, any other object), of which the name of its Python type is kept.
  \<open>elem_lt_zero\<close> is \<^verbatim>\<open>x < 0\<close> on a number: every comparison with NaN is false. It
  is never asked of an item: the comparison of an array raises before (see
  \<open>np_less_zero\<close>).
\<close>

datatype elem = Val real | NaN | PosInf | NegInf | Item string

fun elem_lt_zero :: "elem \<Rightarrow> bool" where
  "elem_lt_zero (Val x) = (x < 0)"
| "elem_lt_zero NaN = False"
| "elem_lt_zero PosInf = False"
| "elem_lt_zero NegInf = True"
| "elem_lt_zero (Item tn) = False"

text \<open>
  The kind of an element type, \<^verbatim>\<open>value.dtype.kind\<close>: boolean, signed and unsigned
  integer, floating point, object, text (\<^verbatim>\<open>U\<close>), bytes (\<^verbatim>\<open>S\<close>), date (\<^verbatim>\<open>M\<close>) and
  structured (\<^verbatim>\<open>V\<close>). Complex numbers and time differences are not covered.
\<close>

datatype dkind = KBool | KInt | KUInt | KFloat | KObject | KStr | KBytes | KDatetime | KVoid

text \<open>
  A numpy array: \<open>dtype\<close> is \<^verbatim>\<open>str(value.dtype)\<close>, \<open>dkind\<close> the kind of the element
  type (\<^verbatim>\<open>value.dtype == object\<close> is \<open>dkind a = KObject\<close>), \<open>shape\<close> the extents,
  \<open>data\<close> the elements in storage order.
\<close>

record ndarray =
  dtype :: string
  dkind :: dkind
  shape :: "nat list"
  data :: "elem list"

definition ndim :: "ndarray \<Rightarrow> nat" where
  "ndim a = length (shape a)"

text \<open>
  \<^verbatim>\<open>value < 0\<close> on an array. numpy chooses the comparison from the two element types
  before it reads an element: it has none for a text, a byte string, a date or a
  structured value against an integer, and raises \<^verbatim>\<open>UFuncTypeError\<close>, a \<^verbatim>\<open>TypeError\<close>
  (its text names the two types and varies with the version of numpy). On numbers the
  comparison is element-wise. On an object array Python compares each element in turn,
  and raises at the first that is not a number.
\<close>

definition no_less_loop :: exn where
  "no_less_loop =
     Exn ''UFuncTypeError''
       (''ufunc '' @ [CHR 0x27] @ ''less'' @ [CHR 0x27]
          @ '' did not contain a loop with signature matching types'') None"

fun object_less_zero :: "elem list \<Rightarrow> exn + bool list" where
  "object_less_zero [] = Inr []"
| "object_less_zero (Item tn # xs) =
     Inl (Exn ''TypeError''
            ([CHR 0x27] @ ''<'' @ [CHR 0x27] @ '' not supported between instances of ''
               @ [CHR 0x27] @ tn @ [CHR 0x27] @ '' and '' @ [CHR 0x27] @ ''int'' @ [CHR 0x27]) None)"
| "object_less_zero (x # xs) =
     (case object_less_zero xs of
        Inl e \<Rightarrow> Inl e
      | Inr bs \<Rightarrow> Inr (elem_lt_zero x # bs))"

definition np_less_zero :: "ndarray \<Rightarrow> exn + bool list" where
  "np_less_zero a =
     (case dkind a of
        KStr \<Rightarrow> Inl no_less_loop
      | KBytes \<Rightarrow> Inl no_less_loop
      | KDatetime \<Rightarrow> Inl no_less_loop
      | KVoid \<Rightarrow> Inl no_less_loop
      | KObject \<Rightarrow> object_less_zero (data a)
      | _ \<Rightarrow> Inr (map elem_lt_zero (data a)))"

text \<open>\<^verbatim>\<open>np.any(bs)\<close>\<close>

definition np_any :: "bool list \<Rightarrow> bool" where
  "np_any bs = list_ex (\<lambda>b. b) bs"

text \<open>
  What \<^verbatim>\<open>validate\<close> and \<^verbatim>\<open>encode\<close> can be handed: an array, or a value of another
  type, of which only \<^verbatim>\<open>type(value).__name__\<close> is read.
\<close>

datatype pyvalue = NdArray ndarray | NotArray string

subsection \<open>validate\<close>

definition validate :: "pyvalue \<Rightarrow> exn + unit" where
  "validate v =
     (case v of
        NotArray tn \<Rightarrow>
          Inl (DataJointError (''<photon> requires numpy.ndarray, got '' @ tn))
      | NdArray a \<Rightarrow>
          if dkind a = KObject then
            Inl (DataJointError ''<photon> does not support object dtype arrays'')
          else if ndim a < 3 then
            Inl (DataJointError
              (''<photon> requires 3D+ arrays (time, height, width, ...), got ''
                 @ string_of_nat (ndim a) @ ''D''))
          else
            (case np_less_zero a of
               Inl e \<Rightarrow> Inl e
             | Inr bs \<Rightarrow>
                 if np_any bs then
                   Inl (DataJointError
                     ''<photon> requires non-negative values (photon counts cannot be negative)'')
                 else Inr ()))"

subsection \<open>The collaborators and the store\<close>

text \<open>
  A stored Zarr array: the values written, the declared chunk shape, the compressor
  configuration and the attribute set (\<^verbatim>\<open>.zattrs\<close>).
\<close>

record artifact =
  payload :: ndarray
  achunks :: "nat list"
  compressor :: string
  attrs :: pydict

text \<open>The calls the codec makes outside itself, in the order it makes them.\<close>

datatype call =
    ExtractContext
  | BuildPath
  | GetBackend jvalue
  | GetFsmap jvalue
  | Transform real real real
  | SaveArray string
  | OpenArray string string
  | SetAttr string string
  | GetAttr string string

record world =
  artifacts :: "string \<rightharpoonup> artifact"
  calls :: "call list"

definition logged :: "call \<Rightarrow> world \<Rightarrow> world" where
  "logged c w = w\<lparr>calls := calls w @ [c]\<rparr>"

text \<open>
  What the collaborators answer. \<open>extract_context\<close>, \<open>build_path\<close> and
  \<open>get_backend\<close> are the methods inherited from \<^verbatim>\<open>SchemaCodec\<close>; \<open>get_fsmap\<close> is the
  backend's; \<open>generalized_anscombe\<close> is the transform library's; the three fault
  fields say when the Zarr engine raises instead of doing its work. A write of an array
  that raises may have begun: \<open>save_fault\<close> gives, with the exception, what the aborted
  write leaves at the location (nothing, or an array that can be opened).
\<close>

record env =
  extract_context :: "pydict option \<Rightarrow> exn + (string \<times> string \<times> string \<times> pydict)"
  build_path :: "string \<Rightarrow> string \<Rightarrow> string \<Rightarrow> pydict \<Rightarrow> string \<Rightarrow> string option
                   \<Rightarrow> exn + (string \<times> string)"
  get_backend :: "jvalue \<Rightarrow> exn + string"
  get_fsmap :: "string \<Rightarrow> jvalue \<Rightarrow> exn + string"
  generalized_anscombe :: "ndarray \<Rightarrow> real \<Rightarrow> real \<Rightarrow> real \<Rightarrow> exn + ndarray"
  save_fault :: "string \<Rightarrow> (exn \<times> artifact option) option"
  open_fault :: "string \<Rightarrow> string \<Rightarrow> exn option"
  attr_fault :: "string \<Rightarrow> string \<Rightarrow> exn option"

text \<open>
  \<^verbatim>\<open>zarr.save_array(store_map, arr, chunks=..., compressor=...)\<close>: replaces whatever is at
  the location by a new array with no attributes. A write that raises leaves there what
  the engine says it leaves.
\<close>

definition path_not_found :: exn where
  "path_not_found =
     Exn ''PathNotFoundError'' (''nothing found at path '' @ [CHR 0x27, CHR 0x27]) None"

definition zarr_save_array ::
  "env \<Rightarrow> string \<Rightarrow> ndarray \<Rightarrow> nat list \<Rightarrow> string \<Rightarrow> world \<Rightarrow> (exn + unit) \<times> world" where
  "zarr_save_array env loc arr chunks cfg w =
     (let w1 = logged (SaveArray loc) w in
      case save_fault env loc of
        Some (e, left) \<Rightarrow> (Inl e, w1\<lparr>artifacts := (artifacts w1)(loc := left)\<rparr>)
      | None \<Rightarrow>
          (Inr (),
           w1\<lparr>artifacts := (artifacts w1)
                 (loc \<mapsto> \<lparr>payload = arr, achunks = chunks, compressor = cfg,
                          attrs = Map.empty\<rparr>)\<rparr>))"

text \<open>
  \<^verbatim>\<open>zarr.open(store_map, mode=...)\<close> for the two modes the codec uses, \<^verbatim>\<open>r\<close> and
  \<^verbatim>\<open>r+\<close>: both need an array to be there, and Zarr 2 (the version that has
  \<^verbatim>\<open>zarr.Blosc\<close>) raises \<^verbatim>\<open>PathNotFoundError\<close> otherwise, naming the path inside the
  mapping, which is empty. The handle is lazy: it is the location and the mode.
\<close>

definition zarr_open ::
  "env \<Rightarrow> string \<Rightarrow> string \<Rightarrow> world \<Rightarrow> (exn + (string \<times> string)) \<times> world" where
  "zarr_open env loc mode w =
     (let w1 = logged (OpenArray loc mode) w in
      case open_fault env loc mode of
        Some e \<Rightarrow> (Inl e, w1)
      | None \<Rightarrow>
          (case artifacts w1 loc of
             None \<Rightarrow> (Inl path_not_found, w1)
           | Some _ \<Rightarrow> (Inr (loc, mode), w1)))"

text \<open>\<^verbatim>\<open>z.attrs[k] = v\<close> on a handle opened for writing.\<close>

definition zattrs_set ::
  "env \<Rightarrow> string \<times> string \<Rightarrow> string \<Rightarrow> jvalue \<Rightarrow> world \<Rightarrow> (exn + unit) \<times> world" where
  "zattrs_set env z k v w =
     (let loc = fst z; w1 = logged (SetAttr loc k) w in
      case attr_fault env loc k of
        Some e \<Rightarrow> (Inl e, w1)
      | None \<Rightarrow>
          (case artifacts w1 loc of
             None \<Rightarrow> (Inl path_not_found, w1)
           | Some a \<Rightarrow>
               (Inr (), w1\<lparr>artifacts := (artifacts w1)(loc \<mapsto> a\<lparr>attrs := (attrs a)(k \<mapsto> v)\<rparr>)\<rparr>)))"

text \<open>\<^verbatim>\<open>z.attrs\<close> as a dictionary.\<close>

definition zattrs :: "world \<Rightarrow> string \<times> string \<Rightarrow> pydict" where
  "zattrs w z = (case artifacts w (fst z) of None \<Rightarrow> Map.empty | Some a \<Rightarrow> attrs a)"

subsection \<open>encode\<close>

definition CODEC_VERSION :: string where
  "CODEC_VERSION = ''1.0''"

definition codec_name :: string where
  "codec_name = ''photon''"

text \<open>
  Lines 186 and 187: \<^verbatim>\<open>chunk_time = min(100, value.shape[0])\<close> and
  \<^verbatim>\<open>chunks = (chunk_time,) + value.shape[1:]\<close>. Indexing an empty shape raises.
\<close>

definition chunks_of :: "nat list \<Rightarrow> exn + nat list" where
  "chunks_of sh =
     (case sh of
        [] \<Rightarrow> Inl (Exn ''IndexError'' ''tuple index out of range'' None)
      | n # rest \<Rightarrow> Inr (min 100 n # rest))"

text \<open>The six attribute writes of lines 199 to 204, stopping at the first that raises.\<close>

fun set_all :: "env \<Rightarrow> string \<times> string \<Rightarrow> (string \<times> jvalue) list \<Rightarrow> world \<Rightarrow> (exn + unit) \<times> world" where
  "set_all env z [] w = (Inr (), w)"
| "set_all env z ((k, v) # kvs) w =
     (case zattrs_set env z k v w of
        (Inl e, w1) \<Rightarrow> (Inl e, w1)
      | (Inr _, w1) \<Rightarrow> set_all env z kvs w1)"

definition encode_attrs :: "ndarray \<Rightarrow> (string \<times> jvalue) list" where
  "encode_attrs a =
     [(''codec_version'', JStr CODEC_VERSION),
      (''codec_name'', JStr codec_name),
      (''anscombe_gain'', JFloat 1),
      (''anscombe_offset'', JFloat 0),
      (''anscombe_variance'', JFloat 0),
      (''original_dtype'', JStr (dtype a))]"

text \<open>The dictionary \<^verbatim>\<open>encode\<close> returns.\<close>

definition encode_result :: "string \<Rightarrow> string option \<Rightarrow> ndarray \<Rightarrow> ndarray \<Rightarrow> pydict" where
  "encode_result path store_name a transformed =
     [''path'' \<mapsto> JStr path,
      ''store'' \<mapsto> py_opt_str store_name,
      ''codec_version'' \<mapsto> JStr CODEC_VERSION,
      ''shape'' \<mapsto> JList (map (\<lambda>n. JInt (int n)) (shape a)),
      ''dtype'' \<mapsto> JStr (dtype transformed),
      ''transform'' \<mapsto> JStr ''anscombe'']"

definition blosc_zstd :: string where
  "blosc_zstd = ''Blosc(cname=zstd, clevel=5, shuffle=BITSHUFFLE)''"

text \<open>The body of the \<^verbatim>\<open>try\<close> block of \<^verbatim>\<open>encode\<close>, after validation has passed.\<close>

definition encode_steps ::
  "env \<Rightarrow> ndarray \<Rightarrow> pydict option \<Rightarrow> string option \<Rightarrow> world \<Rightarrow> (exn + pydict) \<times> world" where
  "encode_steps env a key store_name w =
     (let w1 = logged ExtractContext w in
      case extract_context env key of
        Inl e \<Rightarrow> (Inl e, w1)
      | Inr (schema, table, field, primary_key) \<Rightarrow>
     (let w2 = logged BuildPath w1 in
      case build_path env schema table field primary_key ''.zarr'' store_name of
        Inl e \<Rightarrow> (Inl e, w2)
      | Inr (path, token) \<Rightarrow>
     (let w3 = logged (GetBackend (py_opt_str store_name)) w2 in
      case get_backend env (py_opt_str store_name) of
        Inl e \<Rightarrow> (Inl e, w3)
      | Inr backend \<Rightarrow>
     (let w4 = logged (GetFsmap (JStr path)) w3 in
      case get_fsmap env backend (JStr path) of
        Inl e \<Rightarrow> (Inl e, w4)
      | Inr store_map \<Rightarrow>
     (let w5 = logged (Transform 1 0 0) w4 in
      case generalized_anscombe env a 1 0 0 of
        Inl e \<Rightarrow> (Inl e, w5)
      | Inr transformed \<Rightarrow>
     (case chunks_of (shape a) of
        Inl e \<Rightarrow> (Inl e, w5)
      | Inr chunks \<Rightarrow>
     (case zarr_save_array env store_map transformed chunks blosc_zstd w5 of
        (Inl e, w6) \<Rightarrow> (Inl e, w6)
      | (Inr _, w6) \<Rightarrow>
     (case zarr_open env store_map ''r+'' w6 of
        (Inl e, w7) \<Rightarrow> (Inl e, w7)
      | (Inr z, w7) \<Rightarrow>
     (case set_all env z (encode_attrs a) w7 of
        (Inl e, w8) \<Rightarrow> (Inl e, w8)
      | (Inr _, w8) \<Rightarrow>
          (Inr (encode_result path store_name a transformed), w8))))))))))"

definition encode_body ::
  "env \<Rightarrow> pyvalue \<Rightarrow> pydict option \<Rightarrow> string option \<Rightarrow> world \<Rightarrow> (exn + pydict) \<times> world" where
  "encode_body env v key store_name w =
     (case validate v of
        Inl e \<Rightarrow> (Inl e, w)
      | Inr _ \<Rightarrow>
          (case v of
             NdArray a \<Rightarrow> encode_steps env a key store_name w
           | NotArray tn \<Rightarrow>
               (Inl (Exn ''AttributeError''
                      (CHR 0x27 # tn @ [CHR 0x27] @ '' object has no attribute '' @ [CHR 0x27] @ ''shape'' @ [CHR 0x27]) None), w)))"

text \<open>\<^verbatim>\<open>encode\<close>: the body, with \<^verbatim>\<open>except Exception as e\<close> around it.\<close>

definition encode ::
  "env \<Rightarrow> pyvalue \<Rightarrow> pydict option \<Rightarrow> string option \<Rightarrow> world \<Rightarrow> (exn + pydict) \<times> world" where
  "encode env v key store_name w =
     (case encode_body env v key store_name w of
        (Inl e, w') \<Rightarrow> (Inl (encode_failure e), w')
      | (Inr r, w') \<Rightarrow> (Inr r, w'))"

subsection \<open>decode\<close>

text \<open>\<^verbatim>\<open>stored["path"]\<close>\<close>

definition stored_path :: "pydict \<Rightarrow> exn + jvalue" where
  "stored_path stored =
     (case stored ''path'' of
        None \<Rightarrow> Inl (Exn ''KeyError'' ([CHR 0x27] @ ''path'' @ [CHR 0x27]) None)
      | Some p \<Rightarrow> Inr p)"

text \<open>
  Lines 264 to 266: the attribute of the artifact, else the field of the stored
  record, else \<^verbatim>\<open>"1.0"\<close>.
\<close>

definition resolve_version :: "pydict \<Rightarrow> pydict \<Rightarrow> jvalue" where
  "resolve_version zattr stored =
     dict_get zattr ''codec_version'' (dict_get stored ''codec_version'' (JStr ''1.0''))"

text \<open>
  Lines 269 to 275: \<^verbatim>\<open>version.startswith("1.")\<close>, which only a string has, then the
  handle or the error.
\<close>

definition version_gate :: "string \<times> string \<Rightarrow> jvalue \<Rightarrow> exn + (string \<times> string)" where
  "version_gate z version =
     (case version of
        JStr s \<Rightarrow>
          if startswith s ''1.'' then Inr z
          else Inl (DataJointError
                 (''Unsupported photon codec version: '' @ s @ ''. ''
                    @ ''Upgrade dj-photon-codecs or migrate data.''))
      | _ \<Rightarrow>
          Inl (Exn ''AttributeError''
                ([CHR 0x27] @ type_name version @ [CHR 0x27] @ '' object has no attribute ''
                   @ [CHR 0x27] @ ''startswith'' @ [CHR 0x27]) None))"

definition decode_body ::
  "env \<Rightarrow> pydict \<Rightarrow> pydict option \<Rightarrow> world \<Rightarrow> (exn + (string \<times> string)) \<times> world" where
  "decode_body env stored key w =
     (let store = dict_get stored ''store'' JNone;
          w1 = logged (GetBackend store) w in
      case get_backend env store of
        Inl e \<Rightarrow> (Inl e, w1)
      | Inr backend \<Rightarrow>
     (case stored_path stored of
        Inl e \<Rightarrow> (Inl e, w1)
      | Inr p \<Rightarrow>
     (let w2 = logged (GetFsmap p) w1 in
      case get_fsmap env backend p of
        Inl e \<Rightarrow> (Inl e, w2)
      | Inr store_map \<Rightarrow>
     (case zarr_open env store_map ''r'' w2 of
        (Inl e, w3) \<Rightarrow> (Inl e, w3)
      | (Inr z, w3) \<Rightarrow>
     (let w4 = logged (GetAttr (fst z) ''codec_version'') w3;
          version = resolve_version (zattrs w4 z) stored in
      (version_gate z version, w4))))))"

text \<open>\<^verbatim>\<open>decode\<close>: the body, with \<^verbatim>\<open>except Exception as e\<close> around it.\<close>

definition decode ::
  "env \<Rightarrow> pydict \<Rightarrow> pydict option \<Rightarrow> world \<Rightarrow> (exn + (string \<times> string)) \<times> world" where
  "decode env stored key w =
     (case decode_body env stored key w of
        (Inl e, w') \<Rightarrow> (Inl (decode_failure e), w')
      | (Inr z, w') \<Rightarrow> (Inr z, w'))"

subsection \<open>Notions used in the statements\<close>

text \<open>The attribute set after a list of writes, in order.\<close>

fun write_all :: "pydict \<Rightarrow> (string \<times> jvalue) list \<Rightarrow> pydict" where
  "write_all d [] = d"
| "write_all d ((k, v) # kvs) = write_all (d(k \<mapsto> v)) kvs"

text \<open>
  The artifact a metadata record addresses: the backend of its \<^verbatim>\<open>store\<close>, the mapping
  of its \<^verbatim>\<open>path\<close>, as \<^verbatim>\<open>decode\<close> resolves them.
\<close>

definition artifact_of :: "env \<Rightarrow> world \<Rightarrow> pydict \<Rightarrow> artifact option" where
  "artifact_of env w stored =
     (case get_backend env (dict_get stored ''store'' JNone) of
        Inl _ \<Rightarrow> None
      | Inr backend \<Rightarrow>
          (case stored_path stored of
             Inl _ \<Rightarrow> None
           | Inr p \<Rightarrow>
               (case get_fsmap env backend p of
                  Inl _ \<Rightarrow> None
                | Inr store_map \<Rightarrow> artifacts w store_map)))"

text \<open>
  The wording of the specification: the major version number of a version string is what
  stands before its first dot.
\<close>

definition major_version :: "string \<Rightarrow> string" where
  "major_version v = takeWhile (\<lambda>c. c \<noteq> CHR ''.'') v"

subsection \<open>A concrete environment for the examples\<close>

text \<open>
  A host with one schema and a default store, a transform that keeps the values (a
  stand-in that only changes the element type) and a Zarr engine that never fails.
\<close>

definition fixture_env :: env where
  "fixture_env =
     \<lparr>extract_context =
        (\<lambda>key. case key of
                 None \<Rightarrow> Inl (DataJointError ''no primary key'')
               | Some k \<Rightarrow> Inr (''lab'', ''recording'', ''movie'', k)),
      build_path =
        (\<lambda>schema table field pk ext sn.
           Inr (schema @ ''/'' @ table @ ''/'' @ field @ ext, ''token'')),
      get_backend =
        (\<lambda>s. case s of
               JNone \<Rightarrow> Inr ''default''
             | JStr n \<Rightarrow>
                 if n = ''archive'' then Inr n
                 else Inl (DataJointError (''unknown store: '' @ n))
             | _ \<Rightarrow> Inl (DataJointError ''unknown store'')),
      get_fsmap =
        (\<lambda>backend p. case p of
               JStr s \<Rightarrow> Inr (backend @ '':'' @ s)
             | _ \<Rightarrow> Inl (Exn ''TypeError'' ''expected str'' None)),
      generalized_anscombe = (\<lambda>a gain offset variance. Inr (a\<lparr>dtype := ''float64'', dkind := KFloat\<rparr>)),
      save_fault = (\<lambda>loc. None),
      open_fault = (\<lambda>loc mode. None),
      attr_fault = (\<lambda>loc k. None)\<rparr>"

definition fixture_movie :: ndarray where
  "fixture_movie =
     \<lparr>dtype = ''uint16'', dkind = KUInt, shape = [2, 1, 2], data = [Val 3, Val 0, Val 7, Val 1]\<rparr>"


definition fixture_pk :: pydict where
  "fixture_pk = [''recording_id'' \<mapsto> JInt 1]"

definition fixture_key :: "pydict option" where
  "fixture_key = Some fixture_pk"

definition empty_world :: world where
  "empty_world = \<lparr>artifacts = Map.empty, calls = []\<rparr>"

definition fixture_store :: "pydict \<Rightarrow> world" where
  "fixture_store d =
     \<lparr>artifacts =
        [''default:lab/recording/movie.zarr'' \<mapsto>
           \<lparr>payload = \<lparr>dtype = ''float64'', dkind = KFloat, shape = [2, 1, 2],
                       data = [Val 3, Val 0, Val 7, Val 1]\<rparr>,
            achunks = [2, 1, 2], compressor = blosc_zstd, attrs = d\<rparr>],
      calls = []\<rparr>"

definition fixture_stored :: pydict where
  "fixture_stored = [''path'' \<mapsto> JStr ''lab/recording/movie.zarr'', ''store'' \<mapsto> JNone]"

text \<open>The same record with a version field, as \<^verbatim>\<open>encode\<close> returns it.\<close>

definition fixture_stored_with :: "jvalue \<Rightarrow> pydict" where
  "fixture_stored_with v =
     [''path'' \<mapsto> JStr ''lab/recording/movie.zarr'', ''store'' \<mapsto> JNone,
      ''codec_version'' \<mapsto> v]"

text \<open>The same environment with a Zarr engine that cannot write.\<close>

definition full_disk_env :: env where
  "full_disk_env =
     fixture_env\<lparr>save_fault := (\<lambda>loc. Some (Exn ''OSError'' ''No space left on device'' None, None))\<rparr>"

section \<open>Auxiliary facts\<close>

lemma set_all_ok:
  "artifacts w loc = Some art \<Longrightarrow> set_all env (loc, m) kvs w = (Inr u, w') \<Longrightarrow>
     artifacts w' = (artifacts w)(loc \<mapsto> art\<lparr>attrs := write_all (attrs art) kvs\<rparr>)
     \<and> calls w' = calls w @ map (\<lambda>(k, v). SetAttr loc k) kvs"
proof (induction kvs arbitrary: w art)
  case Nil
  then show ?case by (auto simp: fun_upd_idem_iff)
next
  case (Cons kv kvs)
  obtain k v where kv: "kv = (k, v)" by (cases kv)
  from Cons.prems(2) obtain w1 where
    s1: "zattrs_set env (loc, m) k v w = (Inr (), w1)" and
    s2: "set_all env (loc, m) kvs w1 = (Inr u, w')"
    by (auto simp: kv split: prod.splits sum.splits)
  define art1 where "art1 = art\<lparr>attrs := (attrs art)(k \<mapsto> v)\<rparr>"
  have r1: "attrs art1 = (attrs art)(k \<mapsto> v)"
    by (simp add: art1_def)
  have r2: "art1\<lparr>attrs := Z\<rparr> = art\<lparr>attrs := Z\<rparr>" for Z
    by (simp add: art1_def)
  from s1 Cons.prems(1) have
    a1: "artifacts w1 = (artifacts w)(loc \<mapsto> art1)" and
    c1: "calls w1 = calls w @ [SetAttr loc k]"
    by (auto simp: zattrs_set_def logged_def Let_def art1_def split: option.splits)
  from a1 have "artifacts w1 loc = Some art1"
    by (simp only: fun_upd_same)
  from Cons.IH [OF this s2] have
    a2: "artifacts w' = (artifacts w1)(loc \<mapsto> art1\<lparr>attrs := write_all (attrs art1) kvs\<rparr>)" and
    c2: "calls w' = calls w1 @ map (\<lambda>(k, v). SetAttr loc k) kvs"
    by blast+
  have "artifacts w' = (artifacts w)(loc \<mapsto> art\<lparr>attrs := write_all (attrs art) (kv # kvs)\<rparr>)"
    by (simp only: a2 a1 r1 r2 kv fun_upd_upd write_all.simps)
  moreover have "calls w' = calls w @ map (\<lambda>(k, v). SetAttr loc k) (kv # kvs)"
    by (simp add: c2 c1 kv)
  ultimately show ?case by blast
qed

lemma set_all_fst:
  "artifacts w loc = Some art \<Longrightarrow>
   fst (set_all env (loc, m) kvs w) =
     (case find (\<lambda>k. attr_fault env loc k \<noteq> None) (map fst kvs) of
        None \<Rightarrow> Inr ()
      | Some k \<Rightarrow> Inl (the (attr_fault env loc k)))"
proof (induction kvs arbitrary: w art)
  case Nil
  then show ?case by simp
next
  case (Cons kv kvs)
  obtain k v where kv: "kv = (k, v)" by (cases kv)
  show ?case
  proof (cases "attr_fault env loc k")
    case None
    with Cons.prems have s1: "zattrs_set env (loc, m) k v w =
       (Inr (), (logged (SetAttr loc k) w)\<lparr>artifacts := (artifacts w)(loc \<mapsto> art\<lparr>attrs := (attrs art)(k \<mapsto> v)\<rparr>)\<rparr>)"
      by (simp add: zattrs_set_def logged_def Let_def)
    have "artifacts ((logged (SetAttr loc k) w)\<lparr>artifacts := (artifacts w)(loc \<mapsto> art\<lparr>attrs := (attrs art)(k \<mapsto> v)\<rparr>)\<rparr>) loc
            = Some (art\<lparr>attrs := (attrs art)(k \<mapsto> v)\<rparr>)" by simp
    from Cons.IH [OF this] show ?thesis
      by (simp add: kv s1 None)
  next
    case (Some e)
    then show ?thesis
      by (simp add: kv zattrs_set_def Let_def)
  qed
qed

lemma encode_result_simps:
  "encode_result path sn a t ''path'' = Some (JStr path)"
  "encode_result path sn a t ''store'' = Some (py_opt_str sn)"
  "encode_result path sn a t ''codec_version'' = Some (JStr CODEC_VERSION)"
  "encode_result path sn a t ''shape'' = Some (JList (map (\<lambda>n. JInt (int n)) (shape a)))"
  "encode_result path sn a t ''dtype'' = Some (JStr (dtype t))"
  "encode_result path sn a t ''transform'' = Some (JStr ''anscombe'')"
  by (simp_all add: encode_result_def)

lemma artifact_of_encode_result:
  "get_backend env (py_opt_str sn) = Inr backend \<Longrightarrow>
   get_fsmap env backend (JStr path) = Inr loc \<Longrightarrow>
   artifact_of env w (encode_result path sn a t) = artifacts w loc"
  by (simp add: artifact_of_def dict_get_def stored_path_def encode_result_simps)

lemma encode_steps_success:
  assumes "encode_steps env a key sn w = (Inr r, w')"
  shows "\<exists>schema table field pk path token backend loc t.
           extract_context env key = Inr (schema, table, field, pk)
         \<and> build_path env schema table field pk ''.zarr'' sn = Inr (path, token)
         \<and> get_backend env (py_opt_str sn) = Inr backend
         \<and> get_fsmap env backend (JStr path) = Inr loc
         \<and> generalized_anscombe env a 1 0 0 = Inr t
         \<and> r = encode_result path sn a t
         \<and> artifacts w' = (artifacts w)(loc \<mapsto>
               \<lparr>payload = t, achunks = min 100 (hd (shape a)) # tl (shape a),
                compressor = blosc_zstd, attrs = write_all Map.empty (encode_attrs a)\<rparr>)"
proof -
  from assms obtain schema table field pk where
    ec: "extract_context env key = Inr (schema, table, field, pk)"
    by (auto simp: encode_steps_def Let_def split: sum.splits)
  from assms ec obtain path token where
    bp: "build_path env schema table field pk ''.zarr'' sn = Inr (path, token)"
    by (auto simp: encode_steps_def Let_def split: sum.splits)
  from assms ec bp obtain backend where
    gb: "get_backend env (py_opt_str sn) = Inr backend"
    by (auto simp: encode_steps_def Let_def split: sum.splits)
  from assms ec bp gb obtain loc where
    fm: "get_fsmap env backend (JStr path) = Inr loc"
    by (auto simp: encode_steps_def Let_def split: sum.splits)
  from assms ec bp gb fm obtain t where
    tr: "generalized_anscombe env a 1 0 0 = Inr t"
    by (auto simp: encode_steps_def Let_def split: sum.splits)
  from assms ec bp gb fm tr obtain chunks where
    ch: "chunks_of (shape a) = Inr chunks"
    by (auto simp: encode_steps_def Let_def split: sum.splits)
  then have chunks: "chunks = min 100 (hd (shape a)) # tl (shape a)"
    by (auto simp: chunks_of_def split: list.splits)
  define w5 where "w5 = logged (Transform 1 0 0) (logged (GetFsmap (JStr path))
      (logged (GetBackend (py_opt_str sn)) (logged BuildPath (logged ExtractContext w))))"
  have a5: "artifacts w5 = artifacts w"
    by (simp add: w5_def logged_def)
  from assms ec bp gb fm tr ch obtain w6 where
    sv: "zarr_save_array env loc t chunks blosc_zstd w5 = (Inr (), w6)"
    by (auto simp: encode_steps_def Let_def w5_def split: sum.splits prod.splits)
  define art0 where "art0 = \<lparr>payload = t, achunks = chunks, compressor = blosc_zstd,
                          attrs = (Map.empty :: pydict)\<rparr>"
  from sv have a6: "artifacts w6 = (artifacts w)(loc \<mapsto> art0)"
    by (auto simp: zarr_save_array_def Let_def logged_def a5 art0_def split: option.splits)
  from assms ec bp gb fm tr ch sv obtain z w7 where
    op: "zarr_open env loc ''r+'' w6 = (Inr z, w7)"
    by (auto simp: encode_steps_def Let_def w5_def split: sum.splits prod.splits)
  then have z: "z = (loc, ''r+'')" and a7: "artifacts w7 = artifacts w6"
    by (auto simp: zarr_open_def Let_def logged_def split: option.splits)
  from assms ec bp gb fm tr ch sv op obtain u where
    sa: "set_all env z (encode_attrs a) w7 = (Inr u, w')" and
    r: "r = encode_result path sn a t"
    by (auto simp: encode_steps_def Let_def w5_def split: sum.splits prod.splits)
  have "artifacts w7 loc = Some art0"
    by (simp only: a7 a6 fun_upd_same)
  from set_all_ok [OF this sa [unfolded z]] have
    "artifacts w' = (artifacts w7)(loc \<mapsto> art0\<lparr>attrs := write_all (attrs art0) (encode_attrs a)\<rparr>)"
    by blast
  moreover have "art0\<lparr>attrs := write_all (attrs art0) (encode_attrs a)\<rparr> =
      \<lparr>payload = t, achunks = min 100 (hd (shape a)) # tl (shape a),
       compressor = blosc_zstd, attrs = write_all Map.empty (encode_attrs a)\<rparr>"
    by (simp add: art0_def chunks)
  ultimately have "artifacts w' = (artifacts w)(loc \<mapsto>
               \<lparr>payload = t, achunks = min 100 (hd (shape a)) # tl (shape a),
                compressor = blosc_zstd, attrs = write_all Map.empty (encode_attrs a)\<rparr>)"
    by (simp only: a7 a6 fun_upd_upd)
  with ec bp gb fm tr r show ?thesis by blast
qed

lemma encode_success:
  assumes "encode env v key sn w = (Inr r, w')"
  shows "\<exists>a. v = NdArray a \<and> validate v = Inr () \<and> encode_steps env a key sn w = (Inr r, w')"
  using assms
  by (cases v) (auto simp: encode_def encode_body_def split: sum.splits prod.splits)

lemma decode_opened:
  assumes "get_backend env (dict_get stored ''store'' JNone) = Inr backend"
    and "stored ''path'' = Some p"
    and "get_fsmap env backend p = Inr loc"
    and "open_fault env loc ''r'' = None"
    and "artifacts w loc = Some art"
  shows "decode_body env stored key w =
           (version_gate (loc, ''r'') (resolve_version (attrs art) stored),
            w\<lparr>calls := calls w @ [GetBackend (dict_get stored ''store'' JNone), GetFsmap p,
                                 OpenArray loc ''r'', GetAttr loc ''codec_version'']\<rparr>)"
  using assms
  by (simp add: decode_body_def stored_path_def zarr_open_def zattrs_def logged_def Let_def)

lemma startswith_one_dot:
  "startswith s ''1.'' \<longleftrightarrow> (\<exists>rest. s = CHR ''1'' # CHR ''.'' # rest)"
proof (cases s)
  case Nil
  then show ?thesis by (simp add: startswith_def)
next
  case (Cons c cs)
  then show ?thesis by (cases cs) (auto simp: startswith_def)
qed

lemma startswith_major:
  "startswith s ''1.'' \<longleftrightarrow> major_version s = ''1'' \<and> CHR ''.'' \<in> set s"
proof
  assume "startswith s ''1.''"
  then show "major_version s = ''1'' \<and> CHR ''.'' \<in> set s"
    by (auto simp: startswith_one_dot major_version_def)
next
  assume a: "major_version s = ''1'' \<and> CHR ''.'' \<in> set s"
  then have t: "takeWhile (\<lambda>c. c \<noteq> CHR ''.'') s = ''1''"
    by (simp add: major_version_def)
  from a have "dropWhile (\<lambda>c. c \<noteq> CHR ''.'') s \<noteq> []"
    by auto
  then obtain d ds where d: "dropWhile (\<lambda>c. c \<noteq> CHR ''.'') s = d # ds"
    by (cases "dropWhile (\<lambda>c. c \<noteq> CHR ''.'') s") auto
  then have "\<not> (d \<noteq> CHR ''.'')"
    using hd_dropWhile [of "\<lambda>c. c \<noteq> CHR ''.''" s] by auto
  then have "d = CHR ''.''" by simp
  with t d have "s = ''1'' @ CHR ''.'' # ds"
    using takeWhile_dropWhile_id [of "\<lambda>c. c \<noteq> CHR ''.''" s] by simp
  then show "startswith s ''1.''"
    by (simp add: startswith_one_dot)
qed

lemma fixture_encode_succeeds:
  "\<exists>r w'. encode fixture_env (NdArray fixture_movie) fixture_key None empty_world = (Inr r, w')"
  by (simp add: encode_def encode_body_def encode_steps_def validate_def ndim_def
      np_less_zero_def np_any_def fixture_env_def fixture_movie_def fixture_key_def empty_world_def
      chunks_of_def zarr_save_array_def zarr_open_def zattrs_set_def encode_attrs_def
      logged_def py_opt_str_def Let_def)

lemma encode_stored_artifact:
  assumes "encode env v key store_name w = (Inr r, w')"
  shows "\<exists>a path t.
           v = NdArray a
         \<and> generalized_anscombe env a 1 0 0 = Inr t
         \<and> r = encode_result path store_name a t
         \<and> artifact_of env w' r =
             Some \<lparr>payload = t, achunks = min 100 (hd (shape a)) # tl (shape a),
                   compressor = blosc_zstd, attrs = write_all Map.empty (encode_attrs a)\<rparr>"
proof -
  from encode_success [OF assms] obtain a where
    v: "v = NdArray a" and st: "encode_steps env a key store_name w = (Inr r, w')"
    by auto
  from encode_steps_success [OF st] obtain path backend loc t where
    gb: "get_backend env (py_opt_str store_name) = Inr backend" and
    fm: "get_fsmap env backend (JStr path) = Inr loc" and
    tr: "generalized_anscombe env a 1 0 0 = Inr t" and
    r: "r = encode_result path store_name a t" and
    ar: "artifacts w' = (artifacts w)(loc \<mapsto>
             \<lparr>payload = t, achunks = min 100 (hd (shape a)) # tl (shape a),
              compressor = blosc_zstd, attrs = write_all Map.empty (encode_attrs a)\<rparr>)"
    by blast
  have "artifact_of env w' r = artifacts w' loc"
    unfolding r by (rule artifact_of_encode_result [OF gb fm])
  with ar have "artifact_of env w' r =
             Some \<lparr>payload = t, achunks = min 100 (hd (shape a)) # tl (shape a),
                   compressor = blosc_zstd, attrs = write_all Map.empty (encode_attrs a)\<rparr>"
    by simp
  with v tr r show ?thesis by blast
qed

lemma fixture_decode_opens:
  "get_backend fixture_env (dict_get fixture_stored ''store'' JNone) = Inr ''default''"
  "fixture_stored ''path'' = Some (JStr ''lab/recording/movie.zarr'')"
  "get_fsmap fixture_env ''default'' (JStr ''lab/recording/movie.zarr'') =
     Inr ''default:lab/recording/movie.zarr''"
  "open_fault fixture_env ''default:lab/recording/movie.zarr'' ''r'' = None"
  "artifacts (fixture_store d) ''default:lab/recording/movie.zarr'' =
     Some \<lparr>payload = \<lparr>dtype = ''float64'', dkind = KFloat, shape = [2, 1, 2],
                       data = [Val 3, Val 0, Val 7, Val 1]\<rparr>,
           achunks = [2, 1, 2], compressor = blosc_zstd, attrs = d\<rparr>"
  by (simp_all add: fixture_env_def fixture_stored_def fixture_store_def dict_get_def)

lemma encode_steps_fst:
  "fst (encode_steps env a key sn w) =
     (case extract_context env key of
        Inl e \<Rightarrow> Inl e
      | Inr (schema, table, field, pk) \<Rightarrow>
     (case build_path env schema table field pk ''.zarr'' sn of
        Inl e \<Rightarrow> Inl e
      | Inr (path, token) \<Rightarrow>
     (case get_backend env (py_opt_str sn) of
        Inl e \<Rightarrow> Inl e
      | Inr backend \<Rightarrow>
     (case get_fsmap env backend (JStr path) of
        Inl e \<Rightarrow> Inl e
      | Inr loc \<Rightarrow>
     (case generalized_anscombe env a 1 0 0 of
        Inl e \<Rightarrow> Inl e
      | Inr t \<Rightarrow>
     (case chunks_of (shape a) of
        Inl e \<Rightarrow> Inl e
      | Inr chunks \<Rightarrow>
     (case save_fault env loc of
        Some (e, left) \<Rightarrow> Inl e
      | None \<Rightarrow>
     (case open_fault env loc ''r+'' of
        Some e \<Rightarrow> Inl e
      | None \<Rightarrow>
     (case find (\<lambda>k. attr_fault env loc k \<noteq> None) (map fst (encode_attrs a)) of
        Some k \<Rightarrow> Inl (the (attr_fault env loc k))
      | None \<Rightarrow> Inr (encode_result path sn a t))))))))))"
proof -
  have tail: "fst (case zarr_save_array env loc t chunks blosc_zstd w5 of
        (Inl e, w6) \<Rightarrow> (Inl e, w6)
      | (Inr _, w6) \<Rightarrow>
     (case zarr_open env loc ''r+'' w6 of
        (Inl e, w7) \<Rightarrow> (Inl e, w7)
      | (Inr z, w7) \<Rightarrow>
     (case set_all env z (encode_attrs a) w7 of
        (Inl e, w8) \<Rightarrow> (Inl e, w8)
      | (Inr _, w8) \<Rightarrow> (Inr (encode_result path sn a t), w8)))) =
     (case save_fault env loc of
        Some (e, left) \<Rightarrow> Inl e
      | None \<Rightarrow>
     (case open_fault env loc ''r+'' of
        Some e \<Rightarrow> Inl e
      | None \<Rightarrow>
     (case find (\<lambda>k. attr_fault env loc k \<noteq> None) (map fst (encode_attrs a)) of
        Some k \<Rightarrow> Inl (the (attr_fault env loc k))
      | None \<Rightarrow> Inr (encode_result path sn a t))))" for loc t chunks w5 path
  proof (cases "save_fault env loc")
    case (Some f)
    then show ?thesis by (cases f) (simp add: zarr_save_array_def Let_def)
  next
    case None
    define art0 where "art0 = \<lparr>payload = t, achunks = chunks, compressor = blosc_zstd,
                          attrs = (Map.empty :: pydict)\<rparr>"
    define w6 where "w6 = (logged (SaveArray loc) w5)\<lparr>artifacts :=
        (artifacts (logged (SaveArray loc) w5))(loc \<mapsto> art0)\<rparr>"
    have sv: "zarr_save_array env loc t chunks blosc_zstd w5 = (Inr (), w6)"
      by (simp add: zarr_save_array_def Let_def None w6_def art0_def)
    have a6: "artifacts w6 loc = Some art0"
      by (simp add: w6_def)
    show ?thesis
    proof (cases "open_fault env loc ''r+''")
      case (Some e)
      then show ?thesis
        by (simp add: sv None zarr_open_def Let_def)
    next
      case onone: None
      define w7 where "w7 = logged (OpenArray loc ''r+'') w6"
      have op: "zarr_open env loc ''r+'' w6 = (Inr (loc, ''r+''), w7)"
        using a6 by (simp add: zarr_open_def Let_def onone w7_def logged_def)
      have a7: "artifacts w7 loc = Some art0"
        using a6 by (simp add: w7_def logged_def)
      have "fst (case set_all env (loc, ''r+'') (encode_attrs a) w7 of
                   (Inl e, w8) \<Rightarrow> (Inl e, w8)
                 | (Inr _, w8) \<Rightarrow> (Inr (encode_result path sn a t), w8)) =
            (case fst (set_all env (loc, ''r+'') (encode_attrs a) w7) of
               Inl e \<Rightarrow> Inl e
             | Inr _ \<Rightarrow> Inr (encode_result path sn a t))"
        by (simp split: prod.splits sum.splits)
      also have "\<dots> = (case find (\<lambda>k. attr_fault env loc k \<noteq> None) (map fst (encode_attrs a)) of
          Some k \<Rightarrow> Inl (the (attr_fault env loc k))
        | None \<Rightarrow> Inr (encode_result path sn a t))"
        by (simp add: set_all_fst [OF a7] split: option.splits)
      finally show ?thesis
        by (simp add: sv op None onone)
    qed
  qed
  show ?thesis
    unfolding encode_steps_def Let_def
    by (simp add: tail split: sum.splits prod.splits)
qed

lemma encode_fst:
  "fst (encode env v key sn w) =
     (case fst (encode_body env v key sn w) of
        Inl c \<Rightarrow> Inl (encode_failure c)
      | Inr r \<Rightarrow> Inr r)"
  by (simp add: encode_def split: prod.splits sum.splits)

lemma decode_fst:
  "fst (decode env stored key w) =
     (case fst (decode_body env stored key w) of
        Inl c \<Rightarrow> Inl (decode_failure c)
      | Inr z \<Rightarrow> Inr z)"
  by (simp add: decode_def split: prod.splits sum.splits)

lemma encode_body_array:
  "validate (NdArray a) = Inr () \<Longrightarrow>
   fst (encode_body env (NdArray a) key sn w) = fst (encode_steps env a key sn w)"
  by (simp add: encode_body_def)


section \<open>The claims\<close>

subsection \<open>Validation\<close>




text \<open>
  Claim C9. A floating-point array of three or more dimensions that holds NaN, and no
  element that compares below zero, passes \<^verbatim>\<open>validate\<close>: the comparison of NaN with
  zero is false.
\<close>

theorem validate_accepts_nan:
  assumes "dkind a = KFloat"
    and "3 \<le> ndim a"
    and "NaN \<in> set (data a)"
    and "\<forall>x \<in> set (data a). \<not> elem_lt_zero x"
  shows "validate (NdArray a) = Inr () \<and> \<not> elem_lt_zero NaN"
  using assms by (simp add: validate_def np_less_zero_def np_any_def list_ex_iff)

theorem validate_accepts_nan_witness:
  "validate (NdArray \<lparr>dtype = ''float64'', dkind = KFloat, shape = [1, 1, 2], data = [NaN, Val 4]\<rparr>) = Inr ()"
  using validate_accepts_nan [of "\<lparr>dtype = ''float64'', dkind = KFloat, shape = [1, 1, 2], data = [NaN, Val 4]\<rparr>"]
  by (simp add: ndim_def)

subsection \<open>Encoding\<close>

text \<open>
  Claim C8. When validation fails, \<^verbatim>\<open>encode\<close> raises that failure (inside the
  encode-failure wrapper) and the world is the one it started in: no artifact is
  touched and no call to the path builder, the backend, the transform or the Zarr
  engine has been made.
\<close>

theorem encode_validation_first:
  assumes "validate v = Inl c"
  shows "encode env v key store_name w =
           (Inl (Exn ''DataJointError'' (''Failed to encode photon movie: '' @ msg c) (Some c)), w)"
  using assms by (simp add: encode_def encode_body_def encode_failure_def)

theorem encode_validation_first_witness:
  "encode fixture_env (NdArray \<lparr>dtype = ''int64'', dkind = KInt, shape = [1, 1, 2], data = [Val 1, Val (- 1)]\<rparr>)
      fixture_key None (fixture_store Map.empty) =
     (Inl (Exn ''DataJointError''
            ''Failed to encode photon movie: <photon> requires non-negative values (photon counts cannot be negative)''
            (Some (Exn ''DataJointError''
                    ''<photon> requires non-negative values (photon counts cannot be negative)'' None))),
      fixture_store Map.empty)"
proof -
  have "validate (NdArray \<lparr>dtype = ''int64'', dkind = KInt, shape = [1, 1, 2], data = [Val 1, Val (- 1)]\<rparr>) =
      Inl (Exn ''DataJointError''
             ''<photon> requires non-negative values (photon counts cannot be negative)'' None)"
    by (simp add: validate_def ndim_def np_less_zero_def np_any_def DataJointError_def)
  from encode_validation_first [OF this] show ?thesis by simp
qed

text \<open>
  Claim C3. The chunk shape computed from a shape with at least one axis is
  \<open>min 100 n\<close> along axis 0 and the full extent along every other axis: (100, 64, 64)
  for (250, 64, 64) and (40, 64, 64) for (40, 64, 64). It is the chunk shape of the
  artifact a successful \<^verbatim>\<open>encode\<close> has written.
\<close>

theorem chunk_shape_policy:
  "chunks_of (n # rest) = Inr (min 100 n # rest)
   \<and> chunks_of [250, 64, 64] = Inr [100, 64, 64]
   \<and> chunks_of [40, 64, 64] = Inr [40, 64, 64]
   \<and> (encode env (NdArray a) key store_name w = (Inr r, w') \<longrightarrow>
        (\<exists>art. artifact_of env w' r = Some art
             \<and> achunks art = min 100 (hd (shape a)) # tl (shape a)
             \<and> chunks_of (shape a) = Inr (achunks art)))"
proof -
  have g: "chunks_of (n # rest) = Inr (min 100 n # rest)" for n rest
    by (simp add: chunks_of_def)
  have e: "\<exists>art. artifact_of env w' r = Some art
             \<and> achunks art = min 100 (hd (shape a)) # tl (shape a)
             \<and> chunks_of (shape a) = Inr (achunks art)"
    if enc: "encode env (NdArray a) key store_name w = (Inr r, w')"
  proof -
    from encode_success [OF enc] have
      v: "validate (NdArray a) = Inr ()" and st: "encode_steps env a key store_name w = (Inr r, w')"
      by auto
    from v have "3 \<le> length (shape a)"
      by (auto simp: validate_def ndim_def split: if_splits)
    then obtain m ms where sh: "shape a = m # ms"
      by (cases "shape a") auto
    from encode_steps_success [OF st] obtain path backend loc t where
      gb: "get_backend env (py_opt_str store_name) = Inr backend" and
      fm: "get_fsmap env backend (JStr path) = Inr loc" and
      r: "r = encode_result path store_name a t" and
      ar: "artifacts w' = (artifacts w)(loc \<mapsto>
               \<lparr>payload = t, achunks = min 100 (hd (shape a)) # tl (shape a),
                compressor = blosc_zstd, attrs = write_all Map.empty (encode_attrs a)\<rparr>)"
      by blast
    have "artifact_of env w' r = artifacts w' loc"
      unfolding r by (rule artifact_of_encode_result [OF gb fm])
    with ar sh show ?thesis
      by (simp add: chunks_of_def)
  qed
  from g [of n rest] g [of 250 "[64, 64]"] g [of 40 "[64, 64]"] e show ?thesis
    by simp
qed

theorem chunk_shape_policy_witness:
  "\<exists>r w'. encode fixture_env (NdArray fixture_movie) fixture_key None empty_world = (Inr r, w')
     \<and> (\<exists>art. artifact_of fixture_env w' r = Some art \<and> achunks art = [2, 1, 2])"
proof -
  obtain r w' where
    e: "encode fixture_env (NdArray fixture_movie) fixture_key None empty_world = (Inr r, w')"
    by (simp add: encode_def encode_body_def encode_steps_def validate_def ndim_def
        np_less_zero_def np_any_def fixture_env_def fixture_movie_def fixture_key_def empty_world_def
        chunks_of_def zarr_save_array_def zarr_open_def zattrs_set_def encode_attrs_def
        logged_def py_opt_str_def Let_def)
  from chunk_shape_policy [of _ _ fixture_env fixture_movie fixture_key None empty_world r w'] e
  have "\<exists>art. artifact_of fixture_env w' r = Some art
             \<and> achunks art = min 100 (hd (shape fixture_movie)) # tl (shape fixture_movie)"
    by blast
  then have "\<exists>art. artifact_of fixture_env w' r = Some art \<and> achunks art = [2, 1, 2]"
    by (simp add: fixture_movie_def)
  with e show ?thesis by blast
qed

text \<open>
  Claim C4. After a successful \<^verbatim>\<open>encode\<close>, the artifact that the returned record
  addresses carries the format version \<^verbatim>\<open>1.0\<close>, the codec name \<^verbatim>\<open>photon\<close>, gain 1.0,
  offset 0.0, variance 0.0 and the element type of the input; and its values are what
  the transform returned when called with exactly those parameters: gain 1.0, offset
  0.0, variance 0.0.
\<close>

theorem encode_attributes:
  assumes "encode env v key store_name w = (Inr r, w')"
  shows "\<exists>a art.
           v = NdArray a
         \<and> artifact_of env w' r = Some art
         \<and> attrs art ''codec_version'' = Some (JStr ''1.0'')
         \<and> attrs art ''codec_name'' = Some (JStr ''photon'')
         \<and> attrs art ''anscombe_gain'' = Some (JFloat 1)
         \<and> attrs art ''anscombe_offset'' = Some (JFloat 0)
         \<and> attrs art ''anscombe_variance'' = Some (JFloat 0)
         \<and> attrs art ''original_dtype'' = Some (JStr (dtype a))
         \<and> generalized_anscombe env a 1 0 0 = Inr (payload art)"
proof -
  from encode_stored_artifact [OF assms] obtain a t where
    v: "v = NdArray a" and
    tr: "generalized_anscombe env a 1 0 0 = Inr t" and
    ao: "artifact_of env w' r =
             Some \<lparr>payload = t, achunks = min 100 (hd (shape a)) # tl (shape a),
                   compressor = blosc_zstd, attrs = write_all Map.empty (encode_attrs a)\<rparr>"
    by blast
  have "write_all Map.empty (encode_attrs a) ''codec_version'' = Some (JStr ''1.0'')"
    "write_all Map.empty (encode_attrs a) ''codec_name'' = Some (JStr ''photon'')"
    "write_all Map.empty (encode_attrs a) ''anscombe_gain'' = Some (JFloat 1)"
    "write_all Map.empty (encode_attrs a) ''anscombe_offset'' = Some (JFloat 0)"
    "write_all Map.empty (encode_attrs a) ''anscombe_variance'' = Some (JFloat 0)"
    "write_all Map.empty (encode_attrs a) ''original_dtype'' = Some (JStr (dtype a))"
    by (simp_all add: encode_attrs_def CODEC_VERSION_def codec_name_def)
  with v tr ao show ?thesis by simp
qed

theorem encode_attributes_witness:
  "\<exists>r w' art.
     encode fixture_env (NdArray fixture_movie) fixture_key None empty_world = (Inr r, w')
   \<and> artifact_of fixture_env w' r = Some art
   \<and> attrs art ''codec_version'' = Some (JStr ''1.0'')
   \<and> attrs art ''anscombe_gain'' = Some (JFloat 1)
   \<and> attrs art ''original_dtype'' = Some (JStr ''uint16'')"
proof -
  from fixture_encode_succeeds obtain r w' where
    e: "encode fixture_env (NdArray fixture_movie) fixture_key None empty_world = (Inr r, w')"
    by blast
  from encode_attributes [OF e] obtain art where
    "artifact_of fixture_env w' r = Some art"
    "attrs art ''codec_version'' = Some (JStr ''1.0'')"
    "attrs art ''anscombe_gain'' = Some (JFloat 1)"
    "attrs art ''original_dtype'' = Some (JStr (dtype fixture_movie))"
    by auto
  with e show ?thesis
    by (auto simp: fixture_movie_def)
qed

text \<open>
  Claim C5. After a successful \<^verbatim>\<open>encode\<close>, the \<^verbatim>\<open>shape\<close> field of the returned record is
  the shape of the input array, and so is the shape of the stored artifact, the
  transform being element-wise: it returns an array of the shape it was given.
\<close>

theorem encode_preserves_shape:
  assumes "encode env v key store_name w = (Inr r, w')"
    and "\<forall>a t. generalized_anscombe env a 1 0 0 = Inr t \<longrightarrow> shape t = shape a"
  shows "\<exists>a art.
           v = NdArray a
         \<and> artifact_of env w' r = Some art
         \<and> shape (payload art) = shape a
         \<and> r ''shape'' = Some (JList (map (\<lambda>n. JInt (int n)) (shape a)))"
proof -
  from encode_stored_artifact [OF assms(1)] obtain a path t where
    v: "v = NdArray a" and
    tr: "generalized_anscombe env a 1 0 0 = Inr t" and
    r: "r = encode_result path store_name a t" and
    ao: "artifact_of env w' r =
             Some \<lparr>payload = t, achunks = min 100 (hd (shape a)) # tl (shape a),
                   compressor = blosc_zstd, attrs = write_all Map.empty (encode_attrs a)\<rparr>"
    by blast
  from assms(2) tr have "shape t = shape a" by blast
  moreover have "r ''shape'' = Some (JList (map (\<lambda>n. JInt (int n)) (shape a)))"
    unfolding r by (rule encode_result_simps)
  ultimately show ?thesis using v ao by simp
qed

theorem encode_preserves_shape_witness:
  "\<exists>r w' art.
     encode fixture_env (NdArray fixture_movie) fixture_key None empty_world = (Inr r, w')
   \<and> artifact_of fixture_env w' r = Some art
   \<and> shape (payload art) = [2, 1, 2]
   \<and> r ''shape'' = Some (JList [JInt 2, JInt 1, JInt 2])"
proof -
  from fixture_encode_succeeds obtain r w' where
    e: "encode fixture_env (NdArray fixture_movie) fixture_key None empty_world = (Inr r, w')"
    by blast
  have p: "\<forall>a t. generalized_anscombe fixture_env a 1 0 0 = Inr t \<longrightarrow> shape t = shape a"
    by (auto simp: fixture_env_def)
  from encode_preserves_shape [OF e p] obtain art where
    "artifact_of fixture_env w' r = Some art"
    "shape (payload art) = shape fixture_movie"
    "r ''shape'' = Some (JList (map (\<lambda>n. JInt (int n)) (shape fixture_movie)))"
    by auto
  with e show ?thesis
    by (auto simp: fixture_movie_def)
qed


subsection \<open>Decoding\<close>

text \<open>
  Claim C10. \<^verbatim>\<open>decode\<close> does not read its \<^verbatim>\<open>key\<close> argument: with any two keys it
  returns the same result or the same failure and leaves the same world, the same calls
  to the collaborators included.
\<close>

theorem decode_ignores_key:
  "decode env stored k1 w = decode env stored k2 w"
  by (simp add: decode_def decode_body_def)

text \<open>
  Claim C6. Once the artifact is open, the version \<^verbatim>\<open>decode\<close> checks is the artifact's
  own \<^verbatim>\<open>codec_version\<close> attribute if there is one, else the \<^verbatim>\<open>codec_version\<close> field of
  the stored record if there is one, else \<^verbatim>\<open>1.0\<close>. The outcome of a call is a function
  of the attributes the artifact has in the world of that call and of the record given
  to that call: nothing is kept from an earlier call, and the artifacts are left as
  they were.
\<close>

theorem decode_version_resolution:
  assumes "get_backend env (dict_get stored ''store'' JNone) = Inr backend"
    and "stored ''path'' = Some p"
    and "get_fsmap env backend p = Inr loc"
    and "open_fault env loc ''r'' = None"
    and "artifacts w loc = Some art"
  shows "fst (decode env stored key w) =
           (case version_gate (loc, ''r'')
                   (case attrs art ''codec_version'' of
                      Some v \<Rightarrow> v
                    | None \<Rightarrow>
                        (case stored ''codec_version'' of
                           Some v \<Rightarrow> v
                         | None \<Rightarrow> JStr ''1.0'')) of
              Inl e \<Rightarrow> Inl (decode_failure e)
            | Inr z \<Rightarrow> Inr z)
         \<and> artifacts (snd (decode env stored key w)) = artifacts w"
proof -
  have "resolve_version (attrs art) stored =
          (case attrs art ''codec_version'' of
             Some v \<Rightarrow> v
           | None \<Rightarrow> (case stored ''codec_version'' of Some v \<Rightarrow> v | None \<Rightarrow> JStr ''1.0''))"
    by (simp add: resolve_version_def dict_get_def split: option.splits)
  with decode_opened [OF assms, of key] show ?thesis
    by (simp add: decode_def split: sum.splits)
qed

theorem decode_version_resolution_witness:
  "fst (decode fixture_env (fixture_stored_with (JStr ''1.0'')) None
          (fixture_store [''codec_version'' \<mapsto> JStr ''2.0''])) =
     Inl (decode_failure (DataJointError
           ''Unsupported photon codec version: 2.0. Upgrade dj-photon-codecs or migrate data.''))
   \<and> fst (decode fixture_env (fixture_stored_with (JStr ''2.0'')) None
          (fixture_store Map.empty)) =
     Inl (decode_failure (DataJointError
           ''Unsupported photon codec version: 2.0. Upgrade dj-photon-codecs or migrate data.''))
   \<and> fst (decode fixture_env fixture_stored None (fixture_store Map.empty)) =
     Inr (''default:lab/recording/movie.zarr'', ''r'')"
proof -
  have o: "get_backend fixture_env (dict_get (fixture_stored_with v) ''store'' JNone) = Inr ''default''"
    "fixture_stored_with v ''path'' = Some (JStr ''lab/recording/movie.zarr'')" for v
    by (simp_all add: fixture_env_def fixture_stored_with_def dict_get_def)
  have c: "fixture_stored_with v ''codec_version'' = Some v" for v
    by (simp add: fixture_stored_with_def)
  have n: "fixture_stored ''codec_version'' = None"
    by (simp add: fixture_stored_def)
  have "fst (decode fixture_env (fixture_stored_with (JStr ''1.0'')) None
          (fixture_store [''codec_version'' \<mapsto> JStr ''2.0''])) =
     Inl (decode_failure (DataJointError
           ''Unsupported photon codec version: 2.0. Upgrade dj-photon-codecs or migrate data.''))"
    using decode_version_resolution [OF o [of "JStr ''1.0''"] fixture_decode_opens(3,4)
        fixture_decode_opens(5) [of "[''codec_version'' \<mapsto> JStr ''2.0'']"], where key = None]
    by (simp add: version_gate_def startswith_def c)
  moreover have "fst (decode fixture_env (fixture_stored_with (JStr ''2.0'')) None
          (fixture_store Map.empty)) =
     Inl (decode_failure (DataJointError
           ''Unsupported photon codec version: 2.0. Upgrade dj-photon-codecs or migrate data.''))"
    using decode_version_resolution [OF o [of "JStr ''2.0''"] fixture_decode_opens(3,4)
        fixture_decode_opens(5) [of Map.empty], where key = None]
    by (simp add: version_gate_def startswith_def c)
  moreover have "fst (decode fixture_env fixture_stored None (fixture_store Map.empty)) =
     Inr (''default:lab/recording/movie.zarr'', ''r'')"
    using decode_version_resolution [OF fixture_decode_opens(1-4) fixture_decode_opens(5) [of Map.empty],
        where key = None]
    by (simp add: version_gate_def startswith_def n)
  ultimately show ?thesis by blast
qed

text \<open>
  Claim C1, as the specification states it, fails: the version string \<^verbatim>\<open>1\<close> has the
  major version number of the baseline \<^verbatim>\<open>1.0\<close>, and \<^verbatim>\<open>decode\<close> rejects it.
\<close>

theorem decode_same_major_counterexample:
  "major_version ''1'' = major_version ''1.0''
   \<and> fst (decode fixture_env fixture_stored None (fixture_store [''codec_version'' \<mapsto> JStr ''1''])) =
       Inl (Exn ''DataJointError''
             ''Failed to decode photon movie: Unsupported photon codec version: 1. Upgrade dj-photon-codecs or migrate data.''
             (Some (Exn ''DataJointError''
                     ''Unsupported photon codec version: 1. Upgrade dj-photon-codecs or migrate data.''
                     None)))"
proof -
  have "major_version ''1'' = major_version ''1.0''"
    by (simp add: major_version_def)
  moreover have "decode_body fixture_env fixture_stored None (fixture_store [''codec_version'' \<mapsto> JStr ''1'']) =
      (version_gate (''default:lab/recording/movie.zarr'', ''r'') (JStr ''1''),
       (fixture_store [''codec_version'' \<mapsto> JStr ''1''])\<lparr>calls :=
          calls (fixture_store [''codec_version'' \<mapsto> JStr ''1'']) @
            [GetBackend (dict_get fixture_stored ''store'' JNone),
             GetFsmap (JStr ''lab/recording/movie.zarr''),
             OpenArray ''default:lab/recording/movie.zarr'' ''r'',
             GetAttr ''default:lab/recording/movie.zarr'' ''codec_version'']\<rparr>)"
    by (simp add: decode_opened [OF fixture_decode_opens] resolve_version_def dict_get_def)
  ultimately show ?thesis
    by (simp add: decode_def version_gate_def startswith_def DataJointError_def decode_failure_def)
qed

text \<open>
  Claim C1, amended. Once the artifact is open and the resolved version is a string,
  \<^verbatim>\<open>decode\<close> returns the handle exactly when the string starts with \<^verbatim>\<open>1.\<close>, that is,
  when its major version is 1 and a dot follows it; any other string fails with an
  error that names it. So every version of another major version than the baseline
  fails; \<^verbatim>\<open>1.0\<close> decodes and \<^verbatim>\<open>2.0\<close> fails with an error naming \<^verbatim>\<open>2.0\<close>.
\<close>

theorem decode_version_gate:
  assumes "get_backend env (dict_get stored ''store'' JNone) = Inr backend"
    and "stored ''path'' = Some p"
    and "get_fsmap env backend p = Inr loc"
    and "open_fault env loc ''r'' = None"
    and "artifacts w loc = Some art"
    and "resolve_version (attrs art) stored = JStr s"
  shows "(startswith s ''1.'' \<longrightarrow> fst (decode env stored key w) = Inr (loc, ''r''))
       \<and> (\<not> startswith s ''1.'' \<longrightarrow>
            fst (decode env stored key w) =
              Inl (Exn ''DataJointError''
                    (''Failed to decode photon movie: Unsupported photon codec version: '' @ s
                       @ ''. Upgrade dj-photon-codecs or migrate data.'')
                    (Some (Exn ''DataJointError''
                            (''Unsupported photon codec version: '' @ s
                               @ ''. Upgrade dj-photon-codecs or migrate data.'')
                            None))))
       \<and> (startswith s ''1.'' \<longleftrightarrow> major_version s = ''1'' \<and> CHR ''.'' \<in> set s)
       \<and> (major_version s \<noteq> major_version ''1.0'' \<longrightarrow> \<not> startswith s ''1.'')"
proof -
  have b: "decode_body env stored key w =
           (version_gate (loc, ''r'') (JStr s),
            w\<lparr>calls := calls w @ [GetBackend (dict_get stored ''store'' JNone), GetFsmap p,
                                 OpenArray loc ''r'', GetAttr loc ''codec_version'']\<rparr>)"
    using decode_opened [OF assms(1-5)] assms(6) by simp
  have m: "major_version ''1.0'' = ''1''"
    by (simp add: major_version_def)
  have "startswith s ''1.'' \<longrightarrow> fst (decode env stored key w) = Inr (loc, ''r'')"
    by (simp add: decode_def b version_gate_def)
  moreover have "\<not> startswith s ''1.'' \<longrightarrow>
            fst (decode env stored key w) =
              Inl (Exn ''DataJointError''
                    (''Failed to decode photon movie: Unsupported photon codec version: '' @ s
                       @ ''. Upgrade dj-photon-codecs or migrate data.'')
                    (Some (Exn ''DataJointError''
                            (''Unsupported photon codec version: '' @ s
                               @ ''. Upgrade dj-photon-codecs or migrate data.'')
                            None)))"
    by (simp add: decode_def b version_gate_def DataJointError_def decode_failure_def)
  moreover note startswith_major [of s]
  moreover have "major_version s \<noteq> major_version ''1.0'' \<longrightarrow> \<not> startswith s ''1.''"
    using startswith_major [of s] m by simp
  ultimately show ?thesis by blast
qed

theorem decode_version_gate_witness:
  "fst (decode fixture_env fixture_stored None (fixture_store [''codec_version'' \<mapsto> JStr ''1.0''])) =
     Inr (''default:lab/recording/movie.zarr'', ''r'')
   \<and> fst (decode fixture_env fixture_stored None (fixture_store [''codec_version'' \<mapsto> JStr ''2.0''])) =
     Inl (Exn ''DataJointError''
           ''Failed to decode photon movie: Unsupported photon codec version: 2.0. Upgrade dj-photon-codecs or migrate data.''
           (Some (Exn ''DataJointError''
                   ''Unsupported photon codec version: 2.0. Upgrade dj-photon-codecs or migrate data.''
                   None)))"
proof -
  have r1: "resolve_version
       (attrs \<lparr>payload = \<lparr>dtype = ''float64'', dkind = KFloat, shape = [2, 1, 2],
                       data = [Val 3, Val 0, Val 7, Val 1]\<rparr>,
           achunks = [2, 1, 2], compressor = blosc_zstd, attrs = [''codec_version'' \<mapsto> JStr ''1.0'']\<rparr>)
       fixture_stored = JStr ''1.0''"
    by (simp add: resolve_version_def dict_get_def)
  have r2: "resolve_version
       (attrs \<lparr>payload = \<lparr>dtype = ''float64'', dkind = KFloat, shape = [2, 1, 2],
                       data = [Val 3, Val 0, Val 7, Val 1]\<rparr>,
           achunks = [2, 1, 2], compressor = blosc_zstd, attrs = [''codec_version'' \<mapsto> JStr ''2.0'']\<rparr>)
       fixture_stored = JStr ''2.0''"
    by (simp add: resolve_version_def dict_get_def)
  have "fst (decode fixture_env fixture_stored None (fixture_store [''codec_version'' \<mapsto> JStr ''1.0''])) =
     Inr (''default:lab/recording/movie.zarr'', ''r'')"
    using decode_version_gate [OF fixture_decode_opens r1, where key = None]
    by (simp add: startswith_def)
  moreover have "fst (decode fixture_env fixture_stored None (fixture_store [''codec_version'' \<mapsto> JStr ''2.0''])) =
     Inl (Exn ''DataJointError''
           ''Failed to decode photon movie: Unsupported photon codec version: 2.0. Upgrade dj-photon-codecs or migrate data.''
           (Some (Exn ''DataJointError''
                   ''Unsupported photon codec version: 2.0. Upgrade dj-photon-codecs or migrate data.''
                   None)))"
    using decode_version_gate [OF fixture_decode_opens r2, where key = None]
    by (simp add: startswith_def)
  ultimately show ?thesis by blast
qed

subsection \<open>Failures\<close>

text \<open>
  Claim C7. Whatever \<^verbatim>\<open>encode\<close> raises is one \<^verbatim>\<open>DataJointError\<close> whose message starts
  with \<^verbatim>\<open>Failed to encode photon movie:\<close> and whose cause is the original failure; and
  the failure of any stage reaches the caller in that form: validation, the extraction
  of the context, the path builder, the backend resolver and its mapping, the
  transform, the array write, the reopening of the array and each attribute write (the
  first that fails). The same holds of \<^verbatim>\<open>decode\<close>, with \<^verbatim>\<open>Failed to decode photon
  movie:\<close>: the backend resolver, the missing \<^verbatim>\<open>path\<close> field, the mapping, the opening
  of the array and the version check. No failure is turned into a result.
\<close>

theorem failures_are_wrapped:
  "(\<forall>e. fst (encode env v key sn w) = Inl e \<longrightarrow>
      (\<exists>c. e = Exn ''DataJointError'' (''Failed to encode photon movie: '' @ msg c) (Some c)))
   \<and> (validate v = Inl c \<longrightarrow> fst (encode env v key sn w) = Inl (encode_failure c))
   \<and> (v = NdArray a \<and> validate v = Inr () \<longrightarrow>
        (extract_context env key = Inl c \<longrightarrow> fst (encode env v key sn w) = Inl (encode_failure c))
      \<and> (extract_context env key = Inr (schema, table, field, pk) \<longrightarrow>
        (build_path env schema table field pk ''.zarr'' sn = Inl c \<longrightarrow>
           fst (encode env v key sn w) = Inl (encode_failure c))
      \<and> (build_path env schema table field pk ''.zarr'' sn = Inr (path, token) \<longrightarrow>
        (get_backend env (py_opt_str sn) = Inl c \<longrightarrow>
           fst (encode env v key sn w) = Inl (encode_failure c))
      \<and> (get_backend env (py_opt_str sn) = Inr backend \<longrightarrow>
        (get_fsmap env backend (JStr path) = Inl c \<longrightarrow>
           fst (encode env v key sn w) = Inl (encode_failure c))
      \<and> (get_fsmap env backend (JStr path) = Inr loc \<longrightarrow>
        (generalized_anscombe env a 1 0 0 = Inl c \<longrightarrow>
           fst (encode env v key sn w) = Inl (encode_failure c))
      \<and> (generalized_anscombe env a 1 0 0 = Inr t \<longrightarrow>
        (save_fault env loc = Some (c, left) \<longrightarrow>
           fst (encode env v key sn w) = Inl (encode_failure c))
      \<and> (save_fault env loc = None \<longrightarrow>
        (open_fault env loc ''r+'' = Some c \<longrightarrow>
           fst (encode env v key sn w) = Inl (encode_failure c))
      \<and> (open_fault env loc ''r+'' = None \<longrightarrow>
        (find (\<lambda>k. attr_fault env loc k \<noteq> None) (map fst (encode_attrs a)) = Some k
           \<and> attr_fault env loc k = Some c \<longrightarrow>
           fst (encode env v key sn w) = Inl (encode_failure c))))))))))
   \<and> (\<forall>e. fst (decode env stored dkey w) = Inl e \<longrightarrow>
      (\<exists>c. e = Exn ''DataJointError'' (''Failed to decode photon movie: '' @ msg c) (Some c)))
   \<and> (get_backend env (dict_get stored ''store'' JNone) = Inl c \<longrightarrow>
        fst (decode env stored dkey w) = Inl (decode_failure c))
   \<and> (get_backend env (dict_get stored ''store'' JNone) = Inr dbackend \<longrightarrow>
        (stored ''path'' = None \<longrightarrow>
           fst (decode env stored dkey w) =
             Inl (decode_failure (Exn ''KeyError'' (CHR 0x27 # ''path'' @ [CHR 0x27]) None)))
      \<and> (stored ''path'' = Some p \<longrightarrow>
        (get_fsmap env dbackend p = Inl c \<longrightarrow>
           fst (decode env stored dkey w) = Inl (decode_failure c))
      \<and> (get_fsmap env dbackend p = Inr dloc \<longrightarrow>
        (open_fault env dloc ''r'' = Some c \<longrightarrow>
           fst (decode env stored dkey w) = Inl (decode_failure c))
      \<and> (open_fault env dloc ''r'' = None \<longrightarrow>
        (artifacts w dloc = None \<longrightarrow>
           fst (decode env stored dkey w) =
             Inl (decode_failure
                   (Exn ''PathNotFoundError'' (''nothing found at path '' @ [CHR 0x27, CHR 0x27])
                      None)))
      \<and> (artifacts w dloc = Some art \<longrightarrow>
        (version_gate (dloc, ''r'') (resolve_version (attrs art) stored) = Inl c \<longrightarrow>
           fst (decode env stored dkey w) = Inl (decode_failure c)))))))
   \<and> kind (encode_failure c) = ''DataJointError'' \<and> cause (encode_failure c) = Some c
   \<and> kind (decode_failure c) = ''DataJointError'' \<and> cause (decode_failure c) = Some c"
proof -
  have e0: "\<forall>e. fst (encode env v key sn w) = Inl e \<longrightarrow>
      (\<exists>c. e = Exn ''DataJointError'' (''Failed to encode photon movie: '' @ msg c) (Some c))"
    by (auto simp: encode_fst encode_failure_def split: sum.splits)
  have e1: "validate v = Inl c \<longrightarrow> fst (encode env v key sn w) = Inl (encode_failure c)"
    by (simp add: encode_fst encode_body_def)
  have e2: "v = NdArray a \<and> validate v = Inr () \<longrightarrow>
        (extract_context env key = Inl c \<longrightarrow> fst (encode env v key sn w) = Inl (encode_failure c))
      \<and> (extract_context env key = Inr (schema, table, field, pk) \<longrightarrow>
        (build_path env schema table field pk ''.zarr'' sn = Inl c \<longrightarrow>
           fst (encode env v key sn w) = Inl (encode_failure c))
      \<and> (build_path env schema table field pk ''.zarr'' sn = Inr (path, token) \<longrightarrow>
        (get_backend env (py_opt_str sn) = Inl c \<longrightarrow>
           fst (encode env v key sn w) = Inl (encode_failure c))
      \<and> (get_backend env (py_opt_str sn) = Inr backend \<longrightarrow>
        (get_fsmap env backend (JStr path) = Inl c \<longrightarrow>
           fst (encode env v key sn w) = Inl (encode_failure c))
      \<and> (get_fsmap env backend (JStr path) = Inr loc \<longrightarrow>
        (generalized_anscombe env a 1 0 0 = Inl c \<longrightarrow>
           fst (encode env v key sn w) = Inl (encode_failure c))
      \<and> (generalized_anscombe env a 1 0 0 = Inr t \<longrightarrow>
        (save_fault env loc = Some (c, left) \<longrightarrow>
           fst (encode env v key sn w) = Inl (encode_failure c))
      \<and> (save_fault env loc = None \<longrightarrow>
        (open_fault env loc ''r+'' = Some c \<longrightarrow>
           fst (encode env v key sn w) = Inl (encode_failure c))
      \<and> (open_fault env loc ''r+'' = None \<longrightarrow>
        (find (\<lambda>k. attr_fault env loc k \<noteq> None) (map fst (encode_attrs a)) = Some k
           \<and> attr_fault env loc k = Some c \<longrightarrow>
           fst (encode env v key sn w) = Inl (encode_failure c)))))))))"
  proof (intro impI, elim conjE)
    assume v: "v = NdArray a" and ok: "validate v = Inr ()"
    from ok have "3 \<le> length (shape a)"
      by (auto simp: v validate_def ndim_def split: if_splits)
    then obtain m ms where sh: "shape a = m # ms"
      by (cases "shape a") auto
    have f: "fst (encode env v key sn w) =
        (case fst (encode_steps env a key sn w) of
           Inl c \<Rightarrow> Inl (encode_failure c) | Inr r \<Rightarrow> Inr r)"
      using ok by (simp add: encode_fst v encode_body_array)
    show "(extract_context env key = Inl c \<longrightarrow> fst (encode env v key sn w) = Inl (encode_failure c))
      \<and> (extract_context env key = Inr (schema, table, field, pk) \<longrightarrow>
        (build_path env schema table field pk ''.zarr'' sn = Inl c \<longrightarrow>
           fst (encode env v key sn w) = Inl (encode_failure c))
      \<and> (build_path env schema table field pk ''.zarr'' sn = Inr (path, token) \<longrightarrow>
        (get_backend env (py_opt_str sn) = Inl c \<longrightarrow>
           fst (encode env v key sn w) = Inl (encode_failure c))
      \<and> (get_backend env (py_opt_str sn) = Inr backend \<longrightarrow>
        (get_fsmap env backend (JStr path) = Inl c \<longrightarrow>
           fst (encode env v key sn w) = Inl (encode_failure c))
      \<and> (get_fsmap env backend (JStr path) = Inr loc \<longrightarrow>
        (generalized_anscombe env a 1 0 0 = Inl c \<longrightarrow>
           fst (encode env v key sn w) = Inl (encode_failure c))
      \<and> (generalized_anscombe env a 1 0 0 = Inr t \<longrightarrow>
        (save_fault env loc = Some (c, left) \<longrightarrow>
           fst (encode env v key sn w) = Inl (encode_failure c))
      \<and> (save_fault env loc = None \<longrightarrow>
        (open_fault env loc ''r+'' = Some c \<longrightarrow>
           fst (encode env v key sn w) = Inl (encode_failure c))
      \<and> (open_fault env loc ''r+'' = None \<longrightarrow>
        (find (\<lambda>k. attr_fault env loc k \<noteq> None) (map fst (encode_attrs a)) = Some k
           \<and> attr_fault env loc k = Some c \<longrightarrow>
           fst (encode env v key sn w) = Inl (encode_failure c)))))))))"
      by (simp add: f encode_steps_fst chunks_of_def sh)
  qed
  have d0: "\<forall>e. fst (decode env stored dkey w) = Inl e \<longrightarrow>
      (\<exists>c. e = Exn ''DataJointError'' (''Failed to decode photon movie: '' @ msg c) (Some c))"
    by (auto simp: decode_fst decode_failure_def split: sum.splits)
  have d1: "get_backend env (dict_get stored ''store'' JNone) = Inl c \<longrightarrow>
        fst (decode env stored dkey w) = Inl (decode_failure c)"
    by (simp add: decode_fst decode_body_def Let_def)
  have d2: "get_backend env (dict_get stored ''store'' JNone) = Inr dbackend \<longrightarrow>
        (stored ''path'' = None \<longrightarrow>
           fst (decode env stored dkey w) =
             Inl (decode_failure (Exn ''KeyError'' (CHR 0x27 # ''path'' @ [CHR 0x27]) None)))
      \<and> (stored ''path'' = Some p \<longrightarrow>
        (get_fsmap env dbackend p = Inl c \<longrightarrow>
           fst (decode env stored dkey w) = Inl (decode_failure c))
      \<and> (get_fsmap env dbackend p = Inr dloc \<longrightarrow>
        (open_fault env dloc ''r'' = Some c \<longrightarrow>
           fst (decode env stored dkey w) = Inl (decode_failure c))
      \<and> (open_fault env dloc ''r'' = None \<longrightarrow>
        (artifacts w dloc = None \<longrightarrow>
           fst (decode env stored dkey w) =
             Inl (decode_failure
                   (Exn ''PathNotFoundError'' (''nothing found at path '' @ [CHR 0x27, CHR 0x27])
                      None)))
      \<and> (artifacts w dloc = Some art \<longrightarrow>
        (version_gate (dloc, ''r'') (resolve_version (attrs art) stored) = Inl c \<longrightarrow>
           fst (decode env stored dkey w) = Inl (decode_failure c))))))"
    by (auto simp: decode_fst decode_body_def stored_path_def zarr_open_def zattrs_def
        logged_def Let_def path_not_found_def)
  have k: "kind (encode_failure c) = ''DataJointError'' \<and> cause (encode_failure c) = Some c
   \<and> kind (decode_failure c) = ''DataJointError'' \<and> cause (decode_failure c) = Some c"
    by (simp add: encode_failure_def decode_failure_def)
  from e0 e1 e2 d0 d1 d2 k show ?thesis by blast
qed

theorem failures_are_wrapped_witness:
  "fst (encode fixture_env (NotArray ''list'') fixture_key None empty_world) =
     Inl (encode_failure (DataJointError ''<photon> requires numpy.ndarray, got list''))
   \<and> fst (encode fixture_env (NdArray fixture_movie) None None empty_world) =
     Inl (encode_failure (DataJointError ''no primary key''))
   \<and> fst (encode fixture_env (NdArray fixture_movie) fixture_key (Some ''nowhere'') empty_world) =
     Inl (encode_failure (DataJointError ''unknown store: nowhere''))
   \<and> fst (encode full_disk_env (NdArray fixture_movie) fixture_key None empty_world) =
     Inl (encode_failure (Exn ''OSError'' ''No space left on device'' None))
   \<and> fst (decode fixture_env Map.empty None empty_world) =
     Inl (decode_failure (Exn ''KeyError'' (CHR 0x27 # ''path'' @ [CHR 0x27]) None))
   \<and> fst (decode fixture_env fixture_stored None empty_world) =
     Inl (decode_failure
           (Exn ''PathNotFoundError'' (''nothing found at path '' @ [CHR 0x27, CHR 0x27]) None))
   \<and> fst (decode fixture_env fixture_stored None (fixture_store [''codec_version'' \<mapsto> JStr ''2.0''])) =
     Inl (decode_failure (DataJointError
           ''Unsupported photon codec version: 2.0. Upgrade dj-photon-codecs or migrate data.''))"
proof -
  have ok: "validate (NdArray fixture_movie) = Inr ()"
    by (simp add: validate_def fixture_movie_def ndim_def np_less_zero_def np_any_def)
  have ec: "extract_context fixture_env fixture_key = Inr (''lab'', ''recording'', ''movie'', fixture_pk)"
    "extract_context full_disk_env fixture_key = Inr (''lab'', ''recording'', ''movie'', fixture_pk)"
    "extract_context fixture_env None = Inl (DataJointError ''no primary key'')"
    by (simp_all add: fixture_env_def full_disk_env_def fixture_key_def)
  have bp: "build_path fixture_env ''lab'' ''recording'' ''movie'' fixture_pk ''.zarr'' sn =
      Inr (''lab/recording/movie.zarr'', ''token'')"
    "build_path full_disk_env ''lab'' ''recording'' ''movie'' fixture_pk ''.zarr'' sn =
      Inr (''lab/recording/movie.zarr'', ''token'')" for sn
    by (simp_all add: fixture_env_def full_disk_env_def)
  have gb: "get_backend fixture_env (py_opt_str (Some ''nowhere'')) =
      Inl (DataJointError ''unknown store: nowhere'')"
    "get_backend full_disk_env (py_opt_str None) = Inr ''default''"
    by (simp_all add: fixture_env_def full_disk_env_def py_opt_str_def)
  have fm: "get_fsmap full_disk_env ''default'' (JStr ''lab/recording/movie.zarr'') =
      Inr ''default:lab/recording/movie.zarr''"
    by (simp add: fixture_env_def full_disk_env_def)
  have tr: "generalized_anscombe full_disk_env fixture_movie 1 0 0 =
      Inr (fixture_movie\<lparr>dtype := ''float64'', dkind := KFloat\<rparr>)"
    by (simp add: fixture_env_def full_disk_env_def)
  have sf: "save_fault full_disk_env ''default:lab/recording/movie.zarr'' =
      Some (Exn ''OSError'' ''No space left on device'' None, None)"
    by (simp add: fixture_env_def full_disk_env_def)
  have c1: "fst (encode fixture_env (NotArray ''list'') fixture_key None empty_world) =
     Inl (encode_failure (DataJointError ''<photon> requires numpy.ndarray, got list''))"
    using failures_are_wrapped [where v = "NotArray ''list''" and env = fixture_env
        and key = fixture_key and sn = None and w = empty_world
        and c = "DataJointError ''<photon> requires numpy.ndarray, got list''"]
    by (simp add: validate_def)
  have c2: "fst (encode fixture_env (NdArray fixture_movie) None None empty_world) =
     Inl (encode_failure (DataJointError ''no primary key''))"
    using failures_are_wrapped [where v = "NdArray fixture_movie" and a = fixture_movie
        and env = fixture_env and key = None and sn = None and w = empty_world
        and c = "DataJointError ''no primary key''"] ok ec
    by simp
  have c3: "fst (encode fixture_env (NdArray fixture_movie) fixture_key (Some ''nowhere'') empty_world) =
     Inl (encode_failure (DataJointError ''unknown store: nowhere''))"
    using failures_are_wrapped [where v = "NdArray fixture_movie" and a = fixture_movie
        and env = fixture_env and key = fixture_key and sn = "Some ''nowhere''" and w = empty_world
        and schema = "''lab''" and table = "''recording''" and field = "''movie''"
        and pk = fixture_pk and path = "''lab/recording/movie.zarr''" and token = "''token''"
        and c = "DataJointError ''unknown store: nowhere''"] ok ec bp gb
    by simp
  have c4: "fst (encode full_disk_env (NdArray fixture_movie) fixture_key None empty_world) =
     Inl (encode_failure (Exn ''OSError'' ''No space left on device'' None))"
    using failures_are_wrapped [where v = "NdArray fixture_movie" and a = fixture_movie
        and env = full_disk_env and key = fixture_key and sn = None and w = empty_world
        and schema = "''lab''" and table = "''recording''" and field = "''movie''"
        and pk = fixture_pk and path = "''lab/recording/movie.zarr''" and token = "''token''"
        and backend = "''default''" and loc = "''default:lab/recording/movie.zarr''"
        and t = "fixture_movie\<lparr>dtype := ''float64'', dkind := KFloat\<rparr>"
        and c = "Exn ''OSError'' ''No space left on device'' None"] ok ec bp gb fm tr sf
    by simp
  have gd: "get_backend fixture_env (dict_get Map.empty ''store'' JNone) = Inr ''default''"
    by (simp add: fixture_env_def dict_get_def)
  have c5: "fst (decode fixture_env Map.empty None empty_world) =
     Inl (decode_failure (Exn ''KeyError'' (CHR 0x27 # ''path'' @ [CHR 0x27]) None))"
    using failures_are_wrapped [where env = fixture_env and stored = Map.empty and dkey = None
        and w = empty_world and dbackend = "''default''"] gd
    by simp
  have ew: "artifacts empty_world ''default:lab/recording/movie.zarr'' = None"
    by (simp add: empty_world_def)
  have c6: "fst (decode fixture_env fixture_stored None empty_world) =
     Inl (decode_failure
           (Exn ''PathNotFoundError'' (''nothing found at path '' @ [CHR 0x27, CHR 0x27]) None))"
    using failures_are_wrapped [where env = fixture_env and stored = fixture_stored and dkey = None
        and w = empty_world and dbackend = "''default''"
        and p = "JStr ''lab/recording/movie.zarr''"
        and dloc = "''default:lab/recording/movie.zarr''"] fixture_decode_opens(1-4) ew
    by simp
  have vg: "version_gate (''default:lab/recording/movie.zarr'', ''r'')
       (resolve_version
         (attrs \<lparr>payload = \<lparr>dtype = ''float64'', dkind = KFloat, shape = [2, 1, 2],
                       data = [Val 3, Val 0, Val 7, Val 1]\<rparr>,
           achunks = [2, 1, 2], compressor = blosc_zstd, attrs = [''codec_version'' \<mapsto> JStr ''2.0'']\<rparr>)
         fixture_stored) =
       Inl (DataJointError
           ''Unsupported photon codec version: 2.0. Upgrade dj-photon-codecs or migrate data.'')"
    by (simp add: version_gate_def resolve_version_def dict_get_def startswith_def)
  have c7: "fst (decode fixture_env fixture_stored None (fixture_store [''codec_version'' \<mapsto> JStr ''2.0''])) =
     Inl (decode_failure (DataJointError
           ''Unsupported photon codec version: 2.0. Upgrade dj-photon-codecs or migrate data.''))"
    using failures_are_wrapped [where env = fixture_env and stored = fixture_stored and dkey = None
        and w = "fixture_store [''codec_version'' \<mapsto> JStr ''2.0'']" and dbackend = "''default''"
        and p = "JStr ''lab/recording/movie.zarr''"
        and dloc = "''default:lab/recording/movie.zarr''"
        and art = "\<lparr>payload = \<lparr>dtype = ''float64'', dkind = KFloat, shape = [2, 1, 2],
                       data = [Val 3, Val 0, Val 7, Val 1]\<rparr>,
           achunks = [2, 1, 2], compressor = blosc_zstd, attrs = [''codec_version'' \<mapsto> JStr ''2.0'']\<rparr>"
        and c = "DataJointError
           ''Unsupported photon codec version: 2.0. Upgrade dj-photon-codecs or migrate data.''"]
      fixture_decode_opens(1-4)
      fixture_decode_opens(5) [of "[''codec_version'' \<mapsto> JStr ''2.0'']"] vg
    by simp
  from c1 c2 c3 c4 c5 c6 c7 show ?thesis by blast
qed

end
